theory Spec2Isabelle
  imports Complex_Main "HOL-Library.Word"
begin

section \<open>Data model of the analyzer\<close>

text \<open>
  The embedding follows the class \<open>SurfaceMicrophoneAnalyzer\<close>. Samples are numpy
  \<open>uint16\<close> values, modelled as 16-bit words; timestamps and processed amplitudes are
  Python floats, idealised as reals (rounding is not modelled). The widgets of the
  presentation layer are left out, except for the values the processing code reads from
  them (threshold and minimum distance) and the measurement labels it writes.
\<close>

datatype py_error = IndexError | ValueError

record spike =
  spike_time :: real
  spike_max :: real
  spike_min :: real
  spike_amplitude :: real

record measurements =
  m_region :: "real \<times> real"
  m_duration :: real
  m_samples :: nat
  m_rms :: real
  m_peak_to_peak :: real
  m_avg_freq :: "real option"

text \<open>
  The fields \<open>frozen_data\<close> and \<open>frozen_time\<close> of the source are assigned together
  everywhere (\<open>toggle_pause\<close>, \<open>clear_data\<close>), so one optional pair \<open>frozen\<close> stands for
  both. \<open>dc_offset\<close> is \<open>None\<close> for the NaN that \<open>np.mean\<close> returns on an empty array.
  \<open>measurement_labels\<close> is \<open>None\<close> while the labels show their placeholder text.
\<close>

record analyzer =
  data_buffer :: "16 word list"
  time_buffer :: "real list"
  paused :: bool
  frozen :: "(16 word list \<times> real list) option"
  dc_offset :: "real option"
  highpass_enabled :: bool
  lowpass_enabled :: bool
  notch_enabled :: bool
  region_selection_mode :: bool
  selected_region :: "(real \<times> real) option"
  detected_spikes :: "spike list"
  region_start :: "real option"
  total_samples_received :: int
  threshold_spin :: real
  min_distance_spin :: real
  measurement_labels :: "measurements option"

definition sample_rate :: nat where
  "sample_rate = 10000"

definition max_samples :: nat where
  "max_samples = 300000"

definition init_analyzer :: analyzer where
  "init_analyzer =
     \<lparr> data_buffer = [], time_buffer = [], paused = False, frozen = None,
       dc_offset = Some 2048, highpass_enabled = True, lowpass_enabled = False,
       notch_enabled = True, region_selection_mode = False, selected_region = None,
       detected_spikes = [], region_start = None, total_samples_received = 0,
       threshold_spin = 100, min_distance_spin = 0.05, measurement_labels = None \<rparr>"

section \<open>The rolling buffer\<close>

text \<open>
  \<open>collections.deque(maxlen=n)\<close>: \<open>append\<close> adds on the right and, once the length
  exceeds \<open>maxlen\<close>, drops the leftmost element; \<open>extend\<close> appends the elements one by
  one.
\<close>

definition deque_append :: "nat \<Rightarrow> 'a list \<Rightarrow> 'a \<Rightarrow> 'a list" where
  "deque_append maxlen d x =
     (let d' = d @ [x] in if length d' > maxlen then tl d' else d')"

definition deque_extend :: "nat \<Rightarrow> 'a list \<Rightarrow> 'a list \<Rightarrow> 'a list" where
  "deque_extend maxlen d xs = foldl (deque_append maxlen) d xs"

text \<open>\<open>timestamp + np.arange(len(samples)) * dt\<close> with \<open>dt = 1.0 / sample_rate\<close>.\<close>

definition batch_times :: "real \<Rightarrow> nat \<Rightarrow> real list" where
  "batch_times timestamp n =
     map (\<lambda>i. timestamp + real i * (1 / real sample_rate)) [0..<n]"

definition on_data_received :: "analyzer \<Rightarrow> 16 word list \<Rightarrow> real \<Rightarrow> analyzer" where
  "on_data_received s samples timestamp =
     (if \<not> paused s then
        s\<lparr> total_samples_received := total_samples_received s + int (length samples),
           data_buffer := deque_extend max_samples (data_buffer s) samples,
           time_buffer := deque_extend max_samples (time_buffer s)
                            (batch_times timestamp (length samples)) \<rparr>
      else s)"

definition toggle_pause :: "analyzer \<Rightarrow> analyzer" where
  "toggle_pause s =
     (let s1 = s\<lparr> paused := \<not> paused s \<rparr> in
      if paused s1 then s1\<lparr> frozen := Some (data_buffer s1, time_buffer s1) \<rparr>
      else s1\<lparr> frozen := None \<rparr>)"

definition clear_selected_region :: "analyzer \<Rightarrow> analyzer" where
  "clear_selected_region s =
     s\<lparr> selected_region := None, region_start := None, detected_spikes := [],
        measurement_labels := None \<rparr>"

definition clear_data :: "analyzer \<Rightarrow> analyzer" where
  "clear_data s =
     clear_selected_region
       (s\<lparr> data_buffer := [], time_buffer := [], frozen := None,
           total_samples_received := 0 \<rparr>)"

text \<open>The events that touch the buffer, and a run of them from a state.\<close>

datatype buffer_event = DataReceived "16 word list" real | TogglePause | ClearData

fun buffer_step :: "analyzer \<Rightarrow> buffer_event \<Rightarrow> analyzer" where
  "buffer_step s (DataReceived samples timestamp) = on_data_received s samples timestamp"
| "buffer_step s TogglePause = toggle_pause s"
| "buffer_step s ClearData = clear_data s"

definition receive_all :: "analyzer \<Rightarrow> (16 word list \<times> real) list \<Rightarrow> analyzer" where
  "receive_all s batches = foldl (\<lambda>s (samples, timestamp). on_data_received s samples timestamp) s batches"

text \<open>The last \<open>n\<close> elements of a list, in their order.\<close>

definition lastn :: "nat \<Rightarrow> 'a list \<Rightarrow> 'a list" where
  "lastn n xs = drop (length xs - n) xs"

section \<open>Signal processing\<close>

text \<open>
  The functions of \<open>scipy.signal\<close> are library code outside the repository; the model
  takes them as parameters. \<open>highpass_filter\<close> stands for
  \<open>sosfiltfilt(butter(4, cutoff, 'hp', fs, output='sos'), _)\<close>, \<open>lowpass_filter\<close> for the
  same with \<open>'lp'\<close>, \<open>notch_filter\<close> for \<open>filtfilt(*iirnotch(freq, q, fs), _)\<close>, each at
  the cutoff read from its spin box, and \<open>find_peaks x height distance\<close> for
  \<open>find_peaks(x, height=height, distance=distance)[0]\<close>.
\<close>

record scipy_signal =
  highpass_filter :: "real list \<Rightarrow> real list"
  lowpass_filter :: "real list \<Rightarrow> real list"
  notch_filter :: "real list \<Rightarrow> real list"
  find_peaks :: "real list \<Rightarrow> real \<Rightarrow> int \<Rightarrow> nat list"

definition mean :: "real list \<Rightarrow> real" where
  "mean xs = sum_list xs / real (length xs)"

text \<open>\<open>np.mean\<close>: NaN (here \<open>None\<close>) on an empty array.\<close>

definition np_mean :: "real list \<Rightarrow> real option" where
  "np_mean xs = (if xs = [] then None else Some (mean xs))"

text \<open>\<open>data.copy().astype(float)\<close> on an array of \<open>uint16\<close>.\<close>

definition astype_float :: "16 word list \<Rightarrow> real list" where
  "astype_float data = map (\<lambda>w. real (unat w)) data"

text \<open>
  \<open>process_signal\<close> returns the processed array and the analyzer with \<open>dc_offset\<close>
  reassigned. Subtracting a NaN mean happens only on the empty array, which stays empty.
\<close>

definition process_signal :: "scipy_signal \<Rightarrow> analyzer \<Rightarrow> 16 word list \<Rightarrow> real list \<times> analyzer" where
  "process_signal sp s data =
     (let processed = astype_float data;
          any_filter_active = (highpass_enabled s \<or> lowpass_enabled s \<or> notch_enabled s);
          dc = (if any_filter_active then np_mean processed else Some 2048);
          processed = (if any_filter_active
                       then (case dc of None \<Rightarrow> processed
                             | Some m \<Rightarrow> map (\<lambda>x. x - m) processed)
                       else processed);
          processed = (if highpass_enabled s \<and> length processed > 100
                       then highpass_filter sp processed else processed);
          processed = (if lowpass_enabled s \<and> length processed > 100
                       then lowpass_filter sp processed else processed);
          processed = (if notch_enabled s \<and> length processed > 100
                       then notch_filter sp processed else processed)
      in (processed, s\<lparr> dc_offset := dc \<rparr>))"

section \<open>Region extraction\<close>

text \<open>\<open>(times >= start_time) & (times <= end_time)\<close>\<close>

definition region_mask :: "real list \<Rightarrow> real \<times> real \<Rightarrow> bool list" where
  "region_mask tms r = map (\<lambda>t. t \<ge> fst r \<and> t \<le> snd r) tms"

definition np_any :: "bool list \<Rightarrow> bool" where
  "np_any msk = (True \<in> set msk)"

text \<open>
  \<open>xs[mask]\<close> with a boolean mask: numpy raises \<open>IndexError\<close> when the mask and the
  array differ in length.
\<close>

definition np_index_mask :: "'a list \<Rightarrow> bool list \<Rightarrow> py_error + 'a list" where
  "np_index_mask xs msk =
     (if length msk = length xs then Inr (map fst (filter snd (zip xs msk)))
      else Inl IndexError)"

datatype region_result =
  NoSamples | RegionData "real list" "real list" | RegionError py_error

text \<open>
  The block shared by \<open>detect_spikes\<close> (lines 704-716) and
  \<open>update_region_measurements\<close> (lines 857-868): process the whole snapshot, then mask.
  \<open>times[mask]\<close> cannot raise, the mask being computed from \<open>times\<close>.
\<close>

definition filter_then_extract ::
  "scipy_signal \<Rightarrow> analyzer \<Rightarrow> 16 word list \<Rightarrow> real list \<Rightarrow> real \<times> real \<Rightarrow> region_result \<times> analyzer" where
  "filter_then_extract sp s data tms r =
     (let (processed_data, s1) = process_signal sp s data;
          msk = region_mask tms r
      in if \<not> np_any msk then (NoSamples, s1)
         else (case np_index_mask processed_data msk of
                 Inl e \<Rightarrow> (RegionError e, s1)
               | Inr region_data \<Rightarrow>
                   (RegionData (map fst (filter snd (zip tms msk))) region_data, s1)))"

text \<open>
  The order of the specification's control flow (RegionExtractor, then FilterChain):
  slice the snapshot to the region, then run the filter chain on the slice.
\<close>

definition spec_extract_then_filter ::
  "scipy_signal \<Rightarrow> analyzer \<Rightarrow> 16 word list \<Rightarrow> real list \<Rightarrow> real \<times> real \<Rightarrow> region_result" where
  "spec_extract_then_filter sp s data tms r =
     (let msk = region_mask tms r
      in if \<not> np_any msk then NoSamples
         else (case np_index_mask data msk of
                 Inl e \<Rightarrow> RegionError e
               | Inr region_raw \<Rightarrow>
                   RegionData (map fst (filter snd (zip tms msk)))
                     (fst (process_signal sp s region_raw))))"

text \<open>The "Get data" block: the frozen snapshot while paused, else the live buffers.\<close>

definition snapshot :: "analyzer \<Rightarrow> (16 word list \<times> real list) option" where
  "snapshot s =
     (if paused s \<and> frozen s \<noteq> None then frozen s
      else if length (data_buffer s) = 0 then None
      else Some (data_buffer s, time_buffer s))"

section \<open>Statistics\<close>

definition np_diff :: "real list \<Rightarrow> real list" where
  "np_diff xs = map (\<lambda>(a, b). b - a) (zip xs (tl xs))"

text \<open>\<open>np.where(xs)[0]\<close>: the indices of the nonzero entries, ascending.\<close>

definition np_where :: "real list \<Rightarrow> nat list" where
  "np_where xs = filter (\<lambda>i. xs ! i \<noteq> 0) [0..<length xs]"

definition zero_crossings :: "real list \<Rightarrow> nat list" where
  "zero_crossings region_data = np_where (np_diff (map sgn region_data))"

text \<open>
  Lines 877-886; \<open>None\<close> is the label text \<open>"---"\<close>. The indices in \<open>zero_crossings\<close>
  are below the length of \<open>region_data\<close>, and \<open>region_times\<close> has that length.
\<close>

definition avg_frequency :: "real list \<Rightarrow> real list \<Rightarrow> real option" where
  "avg_frequency region_times region_data =
     (let zc = zero_crossings region_data in
      if length zc > 1 then
        (case np_mean (np_diff (map (\<lambda>i. region_times ! i) zc)) of
           None \<Rightarrow> None
         | Some m \<Rightarrow> (let avg_period = m * 2 in
                      if avg_period > 0 then Some (1 / avg_period) else None))
      else None)"

text \<open>The frequency estimate in the words of the specification.\<close>

definition spec_crossings :: "real list \<Rightarrow> nat list" where
  "spec_crossings amplitudes =
     filter (\<lambda>i. sgn (amplitudes ! i) \<noteq> sgn (amplitudes ! Suc i)) [0..<length amplitudes - 1]"

definition spec_avg_frequency :: "real list \<Rightarrow> real list \<Rightarrow> real option" where
  "spec_avg_frequency tms amplitudes =
     (let cs = spec_crossings amplitudes in
      if length cs < 2 then None
      else (let deltas = map (\<lambda>k. tms ! (cs ! Suc k) - tms ! (cs ! k)) [0..<length cs - 1];
                period = 2 * (sum_list deltas / real (length deltas))
            in if period \<le> 0 then None else Some (1 / period)))"

definition update_region_measurements :: "scipy_signal \<Rightarrow> analyzer \<Rightarrow> py_error option \<times> analyzer" where
  "update_region_measurements sp s =
     (case selected_region s of
        None \<Rightarrow> (None, s)
      | Some (start_time, end_time) \<Rightarrow>
          (case snapshot s of
             None \<Rightarrow> (None, s)
           | Some (data, tms) \<Rightarrow>
               (case filter_then_extract sp s data tms (start_time, end_time) of
                  (NoSamples, s1) \<Rightarrow> (None, s1)
                | (RegionError e, s1) \<Rightarrow> (Some e, s1)
                | (RegionData region_times region_data, s1) \<Rightarrow>
                    (None, s1\<lparr> measurement_labels := Some
                       \<lparr> m_region = (start_time, end_time),
                         m_duration = end_time - start_time,
                         m_samples = length region_data,
                         m_rms = sqrt (mean (map (\<lambda>x. x\<^sup>2) region_data)),
                         m_peak_to_peak = Max (set region_data) - Min (set region_data),
                         m_avg_freq = avg_frequency region_times region_data \<rparr> \<rparr>))))"

section \<open>Region selection\<close>

text \<open>
  \<open>left_button\<close> is \<open>event.button() == Qt.LeftButton\<close> and \<open>click_time\<close> the time under
  the cursor. An exception of \<open>update_region_measurements\<close> propagates after the region
  has been committed.
\<close>

definition on_mouse_clicked ::
  "scipy_signal \<Rightarrow> analyzer \<Rightarrow> bool \<Rightarrow> real \<Rightarrow> py_error option \<times> analyzer" where
  "on_mouse_clicked sp s left_button click_time =
     (if \<not> region_selection_mode s then (None, s)
      else if \<not> left_button then (None, s)
      else (case snapshot s of
              None \<Rightarrow> (None, s)
            | Some (data, tms) \<Rightarrow>
                if length tms = 0 then (None, s)
                else (case region_start s of
                        None \<Rightarrow> (None, s\<lparr> region_start := Some click_time \<rparr>)
                      | Some first_click \<Rightarrow>
                          (let region_end = click_time;
                               start = min first_click region_end;
                               end = max first_click region_end
                           in update_region_measurements sp
                                (s\<lparr> selected_region := Some (start, end),
                                    region_start := None \<rparr>)))))"

section \<open>Spike detection\<close>

text \<open>\<open>int(x)\<close> on a float truncates towards zero.\<close>

definition py_int :: "real \<Rightarrow> int" where
  "py_int x = (if x \<ge> 0 then \<lfloor>x\<rfloor> else \<lceil>x\<rceil>)"

text \<open>
  The body of the loop over the peaks (lines 744-762) for a peak index within
  \<open>region_times\<close>: the records it appends (one, or none when the local window is
  empty).
\<close>

definition peak_records :: "real list \<Rightarrow> real list \<Rightarrow> int \<Rightarrow> nat \<Rightarrow> spike list" where
  "peak_records region_times region_data min_distance_samples peak_idx =
     (let peak_time = region_times ! peak_idx;
          window = min_distance_samples div 2;
          start_idx = max 0 (int peak_idx - window);
          end_idx = min (int (length region_data)) (int peak_idx + window + 1);
          local_data = take (nat end_idx - nat start_idx) (drop (nat start_idx) region_data)
      in if length local_data > 0
         then [\<lparr> spike_time = peak_time,
                  spike_max = Max (set local_data),
                  spike_min = Min (set local_data),
                  spike_amplitude = Max (set local_data) - Min (set local_data) \<rparr>]
         else [])"

text \<open>
  The loop itself, with the list built so far as accumulator.
  \<open>region_times[peak_idx]\<close> raises \<open>IndexError\<close> out of range; the records appended
  before stay in the list.
\<close>

fun analyze_peaks ::
  "real list \<Rightarrow> real list \<Rightarrow> int \<Rightarrow> nat list \<Rightarrow> spike list \<Rightarrow> spike list \<times> py_error option" where
  "analyze_peaks region_times region_data min_distance_samples [] acc = (acc, None)"
| "analyze_peaks region_times region_data min_distance_samples (peak_idx # peaks) acc =
     (if peak_idx \<ge> length region_times then (acc, Some IndexError)
      else analyze_peaks region_times region_data min_distance_samples peaks
             (acc @ peak_records region_times region_data min_distance_samples peak_idx))"

text \<open>
  What \<open>detect_spikes\<close> shows: a \<open>QMessageBox.warning\<close> or \<open>.information\<close> with its
  title, the results dialog, or an exception. \<open>find_peaks\<close> raises \<open>ValueError\<close> for a
  distance below 1.
\<close>

datatype dialog =
  Warning string | Information string | SpikeResults "spike list" | Raise py_error

definition detect_spikes :: "scipy_signal \<Rightarrow> analyzer \<Rightarrow> dialog \<times> analyzer" where
  "detect_spikes sp s =
     (case selected_region s of
        None \<Rightarrow> (Warning ''No Region'', s)
      | Some r \<Rightarrow>
          (case snapshot s of
             None \<Rightarrow> (Warning ''No Data'', s)
           | Some (data, tms) \<Rightarrow>
               (case filter_then_extract sp s data tms r of
                  (NoSamples, s1) \<Rightarrow> (Warning ''No Data'', s1)
                | (RegionError e, s1) \<Rightarrow> (Raise e, s1)
                | (RegionData region_times region_data, s1) \<Rightarrow>
                    (let threshold = threshold_spin s1;
                         min_distance_sec = min_distance_spin s1;
                         min_distance_samples = py_int (min_distance_sec * real sample_rate);
                         abs_data = map abs region_data
                     in if min_distance_samples < 1 then (Raise ValueError, s1)
                        else
                          (let peaks = find_peaks sp abs_data threshold min_distance_samples
                           in if length peaks = 0 then (Information ''No Spikes'', s1)
                              else
                                (let (spikes, err) =
                                       analyze_peaks region_times region_data
                                         min_distance_samples peaks [];
                                     s2 = s1\<lparr> detected_spikes := spikes \<rparr>
                                 in (case err of
                                       Some e \<Rightarrow> (Raise e, s2)
                                     | None \<Rightarrow> (SpikeResults spikes, s2))))))))"

text \<open>
  An instance of the library parameters for evaluating the model on concrete inputs:
  filters that shift every sample by a constant (so that an applied stage is visible in
  the output), and a peak finder returning the strict interior local maxima that reach
  the height (the distance rule is not needed on the inputs used).
\<close>

definition local_maxima :: "real list \<Rightarrow> nat list" where
  "local_maxima x =
     filter (\<lambda>i. x ! (i - 1) < x ! i \<and> x ! Suc i < x ! i) [1..<length x - 1]"

definition sample_scipy :: scipy_signal where
  "sample_scipy =
     \<lparr> highpass_filter = map (\<lambda>x. x + 1),
       lowpass_filter = map (\<lambda>x. x + 10),
       notch_filter = map (\<lambda>x. x + 100),
       find_peaks = (\<lambda>x height distance. filter (\<lambda>i. x ! i \<ge> height) (local_maxima x)) \<rparr>"

text \<open>
  Step 1 of the specification's filter chain, on its own: the input converted to floats,
  with its mean subtracted when at least one stage is enabled.
\<close>

definition spec_dc_removed :: "analyzer \<Rightarrow> 16 word list \<Rightarrow> real list" where
  "spec_dc_removed s data =
     (if highpass_enabled s \<or> lowpass_enabled s \<or> notch_enabled s
      then map (\<lambda>x. x - mean (astype_float data)) (astype_float data)
      else astype_float data)"

definition length_preserving :: "(real list \<Rightarrow> real list) \<Rightarrow> bool" where
  "length_preserving f = (\<forall>xs. length (f xs) = length xs)"

text \<open>
  The two-click selection: a first and a second left click, one after the other.
\<close>

definition two_clicks :: "scipy_signal \<Rightarrow> analyzer \<Rightarrow> real \<Rightarrow> real \<Rightarrow> analyzer" where
  "two_clicks sp s first_click second_click =
     snd (on_mouse_clicked sp (snd (on_mouse_clicked sp s True first_click)) True second_click)"

text \<open>
  The analyzer after region selection was switched on and the batch \<open>[0, 30, 0]\<close> arrived
  at timestamp 0.
\<close>

definition recorded_analyzer :: analyzer where
  "recorded_analyzer =
     init_analyzer\<lparr> region_selection_mode := True, data_buffer := [0, 30, 0],
       time_buffer := [0, 1 / 10000, 2 / 10000], total_samples_received := 3 \<rparr>"

text \<open>
  The recorded analyzer with the region \<open>(0, 1)\<close> selected and the threshold set to 15.
\<close>

definition spiked_analyzer :: analyzer where
  "spiked_analyzer = recorded_analyzer\<lparr> selected_region := Some (0, 1), threshold_spin := 15 \<rparr>"

section \<open>Properties of the buffer\<close>

lemma deque_append_lastn:
  assumes "length d \<le> maxlen"
  shows "deque_append maxlen d x = lastn maxlen (d @ [x])"
proof (cases "length d < maxlen")
  case True
  then show ?thesis by (simp add: deque_append_def lastn_def)
next
  case False
  with assms have full: "length d = maxlen" by simp
  then have "Suc (length d) - maxlen = Suc 0" by simp
  with full show ?thesis by (cases d) (auto simp: deque_append_def lastn_def drop_Suc)
qed

lemma length_lastn: "length (lastn n xs) = min n (length xs)"
  by (simp add: lastn_def)

lemma lastn_lastn_append: "lastn n (lastn n xs @ ys) = lastn n (xs @ ys)"
proof (cases "length xs \<le> n")
  case True
  then show ?thesis by (simp add: lastn_def)
next
  case False
  then have "length xs + length ys - (length xs - n + n) + (length xs - n) =
             length xs + length ys - n"
    by simp
  with False show ?thesis by (simp add: lastn_def)
qed

lemma deque_extend_lastn:
  "length d \<le> maxlen \<Longrightarrow> deque_extend maxlen d xs = lastn maxlen (d @ xs)"
proof (induction xs arbitrary: d)
  case Nil
  then show ?case by (simp add: deque_extend_def lastn_def)
next
  case (Cons x xs)
  have le: "length (deque_append maxlen d x) \<le> maxlen"
    using Cons.prems by (simp add: deque_append_lastn length_lastn)
  have "deque_extend maxlen d (x # xs) = deque_extend maxlen (deque_append maxlen d x) xs"
    by (simp add: deque_extend_def)
  also have "\<dots> = lastn maxlen (deque_append maxlen d x @ xs)"
    using Cons.IH [OF le] .
  also have "\<dots> = lastn maxlen (lastn maxlen (d @ [x]) @ xs)"
    using Cons.prems by (simp add: deque_append_lastn)
  also have "\<dots> = lastn maxlen (d @ x # xs)"
    by (simp add: lastn_lastn_append)
  finally show ?case .
qed

lemma length_deque_append:
  "length (deque_append maxlen d x) = (if length d < maxlen then Suc (length d) else length d)"
  by (cases d) (auto simp: deque_append_def Let_def)

lemma length_deque_extend_eq:
  "length d = length e \<Longrightarrow> length xs = length ys \<Longrightarrow>
   length (deque_extend maxlen d xs) = length (deque_extend maxlen e ys)"
proof (induction xs arbitrary: d e ys)
  case Nil
  then show ?case by (simp add: deque_extend_def)
next
  case (Cons x xs)
  then obtain y ys' where ys: "ys = y # ys'" by (cases ys) auto
  have "length (deque_append maxlen d x) = length (deque_append maxlen e y)"
    using Cons.prems(1) by (simp add: length_deque_append)
  moreover have "length xs = length ys'" using Cons.prems(2) ys by simp
  ultimately have
    "length (deque_extend maxlen (deque_append maxlen d x) xs) =
     length (deque_extend maxlen (deque_append maxlen e y) ys')"
    by (rule Cons.IH)
  then show ?case by (simp add: deque_extend_def ys)
qed

lemma length_batch_times: "length (batch_times t n) = n"
  by (simp add: batch_times_def)

lemma on_data_received_aligned:
  "length (time_buffer s) = length (data_buffer s) \<Longrightarrow>
   length (time_buffer (on_data_received s samples t)) =
   length (data_buffer (on_data_received s samples t))"
  by (simp add: on_data_received_def length_batch_times
      length_deque_extend_eq [where xs = "batch_times t (length samples)" and ys = samples])

lemma toggle_pause_buffers:
  "data_buffer (toggle_pause s) = data_buffer s"
  "time_buffer (toggle_pause s) = time_buffer s"
  by (simp_all add: toggle_pause_def Let_def)

lemma clear_data_buffers:
  "data_buffer (clear_data s) = []" "time_buffer (clear_data s) = []"
  by (simp_all add: clear_data_def clear_selected_region_def)

lemma buffer_step_aligned:
  "length (time_buffer s) = length (data_buffer s) \<Longrightarrow>
   length (time_buffer (buffer_step s e)) = length (data_buffer (buffer_step s e))"
  by (cases e) (simp_all add: on_data_received_aligned toggle_pause_buffers clear_data_buffers)

lemma run_aligned:
  "length (time_buffer s) = length (data_buffer s) \<Longrightarrow>
   length (time_buffer (foldl buffer_step s es)) = length (data_buffer (foldl buffer_step s es))"
  by (induction es arbitrary: s) (simp_all add: buffer_step_aligned)

lemma on_data_received_unpaused:
  assumes "\<not> paused s" "length (data_buffer s) \<le> max_samples"
    "length (time_buffer s) \<le> max_samples"
  shows "data_buffer (on_data_received s samples t) = lastn max_samples (data_buffer s @ samples)"
    and "time_buffer (on_data_received s samples t) =
         lastn max_samples (time_buffer s @ batch_times t (length samples))"
    and "total_samples_received (on_data_received s samples t) =
         total_samples_received s + int (length samples)"
    and "\<not> paused (on_data_received s samples t)"
  using assms by (simp_all add: on_data_received_def deque_extend_lastn)

lemma receive_all_Cons:
  "receive_all s ((samples, t) # batches) = receive_all (on_data_received s samples t) batches"
  by (simp add: receive_all_def)

lemma receive_all_unpaused:
  assumes "\<not> paused s" "length (data_buffer s) \<le> max_samples"
    "length (time_buffer s) \<le> max_samples"
  shows "data_buffer (receive_all s batches) =
           lastn max_samples (data_buffer s @ concat (map fst batches)) \<and>
         time_buffer (receive_all s batches) =
           lastn max_samples (time_buffer s @
             concat (map (\<lambda>(samples, t). batch_times t (length samples)) batches))"
  using assms
proof (induction batches arbitrary: s)
  case Nil
  then show ?case by (simp add: receive_all_def lastn_def)
next
  case (Cons b batches)
  obtain samples t where b: "b = (samples, t)" by (cases b)
  let ?s1 = "on_data_received s samples t"
  note step = on_data_received_unpaused [OF Cons.prems, of samples t]
  have "length (data_buffer ?s1) \<le> max_samples" "length (time_buffer ?s1) \<le> max_samples"
    by (simp_all add: step length_lastn)
  with step(4) have
    "data_buffer (receive_all ?s1 batches) =
       lastn max_samples (data_buffer ?s1 @ concat (map fst batches)) \<and>
     time_buffer (receive_all ?s1 batches) =
       lastn max_samples (time_buffer ?s1 @
         concat (map (\<lambda>(samples, t). batch_times t (length samples)) batches))"
    by (rule Cons.IH)
  then show ?case
    by (simp add: b receive_all_Cons step(1,2) lastn_lastn_append)
qed

section \<open>Claims about the buffer\<close>

text \<open>
  C10. Clearing the data cascades to the region state: \<open>clear_data\<close> empties both
  buffer channels and the frozen snapshot, resets the total-received counter to zero, and
  clears the active region, the pending first click and the stored spike records.
\<close>

theorem clear_data_cascades:
  "data_buffer (clear_data s) = [] \<and> time_buffer (clear_data s) = [] \<and>
   frozen (clear_data s) = None \<and> total_samples_received (clear_data s) = 0 \<and>
   selected_region (clear_data s) = None \<and> region_start (clear_data s) = None \<and>
   detected_spikes (clear_data s) = []"
  by (simp add: clear_data_def clear_selected_region_def)

text \<open>
  C1, as stated, fails: in a paused state \<open>on_data_received\<close> drops the batch. After
  pausing the initial analyzer, delivering the one-sample batch \<open>[1]\<close> leaves the state
  as it was, so neither buffer grows and the counter does not count the sample.
\<close>

theorem paused_append_counterexample:
  "paused (toggle_pause init_analyzer) \<and>
   on_data_received (toggle_pause init_analyzer) [1] 0 = toggle_pause init_analyzer \<and>
   data_buffer (on_data_received (toggle_pause init_analyzer) [1] 0) = [] \<and>
   total_samples_received (on_data_received (toggle_pause init_analyzer) [1] 0) \<noteq>
     total_samples_received (toggle_pause init_analyzer) + int (length [1 :: 16 word])"
  by (simp add: on_data_received_def toggle_pause_def init_analyzer_def Let_def)

text \<open>
  C1, amended. Pausing gates acquisition: while \<open>paused\<close> holds, \<open>on_data_received\<close>
  leaves the whole state unchanged (the batch is discarded). While it does not hold, the
  counter grows by the batch length and both buffers are extended by the batch and its
  interpolated timestamps, keeping the most recent \<open>max_samples\<close> entries.
\<close>

theorem on_data_received_gate:
  "(paused s \<longrightarrow> on_data_received s samples t = s) \<and>
   (\<not> paused s \<and> length (data_buffer s) \<le> max_samples \<and>
    length (time_buffer s) \<le> max_samples \<longrightarrow>
      total_samples_received (on_data_received s samples t) =
        total_samples_received s + int (length samples) \<and>
      data_buffer (on_data_received s samples t) =
        lastn max_samples (data_buffer s @ samples) \<and>
      time_buffer (on_data_received s samples t) =
        lastn max_samples (time_buffer s @ batch_times t (length samples)))"
  by (simp add: on_data_received_def deque_extend_lastn)

theorem on_data_received_gate_witness:
  "paused (toggle_pause init_analyzer) \<and>
   on_data_received (toggle_pause init_analyzer) [7, 8] 2 = toggle_pause init_analyzer \<and>
   \<not> paused init_analyzer \<and>
   length (data_buffer init_analyzer) \<le> max_samples \<and>
   length (time_buffer init_analyzer) \<le> max_samples \<and>
   total_samples_received (on_data_received init_analyzer [7, 8] 2) = 2 \<and>
   data_buffer (on_data_received init_analyzer [7, 8] 2) = [7, 8] \<and>
   time_buffer (on_data_received init_analyzer [7, 8] 2) = [2, 2 + 1 / 10000]"
  using on_data_received_gate [of "toggle_pause init_analyzer" "[7, 8]" 2]
    on_data_received_gate [of init_analyzer "[7, 8]" 2]
  by (simp add: toggle_pause_def init_analyzer_def Let_def lastn_def max_samples_def
      batch_times_def sample_rate_def upt_rec)

text \<open>
  C3. From a state whose two channels have the same length, within capacity, the channels
  have the same length after every run of buffer events (batches received, pause toggled,
  data cleared). After any sequence of batches received while not paused, each channel
  holds the last \<open>max_samples\<close> (300000) entries of everything appended to it, in
  insertion order; so once more than \<open>max_samples\<close> entries have been appended it holds
  exactly \<open>max_samples\<close> of them, the oldest evicted first.
\<close>

theorem buffer_aligned_most_recent:
  assumes "length (time_buffer s) = length (data_buffer s)"
    and "length (data_buffer s) \<le> max_samples"
  shows "length (time_buffer (foldl buffer_step s es)) =
           length (data_buffer (foldl buffer_step s es)) \<and>
         (\<not> paused s \<longrightarrow>
            data_buffer (receive_all s batches) =
              lastn max_samples (data_buffer s @ concat (map fst batches)) \<and>
            time_buffer (receive_all s batches) =
              lastn max_samples (time_buffer s @
                concat (map (\<lambda>(samples, t). batch_times t (length samples)) batches)) \<and>
            (max_samples < length (data_buffer s @ concat (map fst batches)) \<longrightarrow>
               length (data_buffer (receive_all s batches)) = max_samples \<and>
               length (time_buffer (receive_all s batches)) = max_samples))"
proof -
  have aligned: "length (time_buffer (foldl buffer_step s es)) =
                 length (data_buffer (foldl buffer_step s es))"
    using assms(1) by (rule run_aligned)
  have recent: "data_buffer (receive_all s batches) =
                  lastn max_samples (data_buffer s @ concat (map fst batches)) \<and>
                time_buffer (receive_all s batches) =
                  lastn max_samples (time_buffer s @
                    concat (map (\<lambda>(samples, t). batch_times t (length samples)) batches))"
    if "\<not> paused s"
    using that assms by (intro receive_all_unpaused) simp_all
  have same: "length (time_buffer (receive_all s batches)) =
              length (data_buffer (receive_all s batches))"
  proof -
    have "receive_all s batches =
          foldl buffer_step s (map (\<lambda>(samples, t). DataReceived samples t) batches)"
      unfolding receive_all_def
      by (induction batches arbitrary: s) (simp_all add: case_prod_beta)
    then show ?thesis using run_aligned [OF assms(1)] by simp
  qed
  have full: "length (data_buffer (receive_all s batches)) = max_samples"
    if "\<not> paused s" "max_samples < length (data_buffer s @ concat (map fst batches))"
    using recent [OF that(1)] that(2) by (simp add: length_lastn)
  have full_time: "length (time_buffer (receive_all s batches)) = max_samples"
    if "\<not> paused s" "max_samples < length (data_buffer s @ concat (map fst batches))"
    using full [OF that] same by simp
  show ?thesis
  proof (intro conjI impI)
    show "length (time_buffer (foldl buffer_step s es)) =
          length (data_buffer (foldl buffer_step s es))"
      by (rule aligned)
  next
    assume "\<not> paused s"
    then show "data_buffer (receive_all s batches) =
          lastn max_samples (data_buffer s @ concat (map fst batches))"
      using recent by blast
  next
    assume "\<not> paused s"
    then show "time_buffer (receive_all s batches) =
          lastn max_samples (time_buffer s @
            concat (map (\<lambda>(samples, t). batch_times t (length samples)) batches))"
      using recent by blast
  next
    assume "\<not> paused s" "max_samples < length (data_buffer s @ concat (map fst batches))"
    then show "length (data_buffer (receive_all s batches)) = max_samples"
      by (rule full)
  next
    assume "\<not> paused s" "max_samples < length (data_buffer s @ concat (map fst batches))"
    then show "length (time_buffer (receive_all s batches)) = max_samples"
      by (rule full_time)
  qed
qed

theorem buffer_aligned_most_recent_witness:
  "length (time_buffer init_analyzer) = length (data_buffer init_analyzer) \<and>
   length (data_buffer init_analyzer) \<le> max_samples \<and>
   \<not> paused init_analyzer \<and>
   length (time_buffer (foldl buffer_step init_analyzer
       [DataReceived [1, 2] 0, TogglePause, DataReceived [3] 1, ClearData])) =
   length (data_buffer (foldl buffer_step init_analyzer
       [DataReceived [1, 2] 0, TogglePause, DataReceived [3] 1, ClearData])) \<and>
   data_buffer (receive_all init_analyzer [([1, 2], 0), ([3], 1)]) = [1, 2, 3] \<and>
   time_buffer (receive_all init_analyzer [([1, 2], 0), ([3], 1)]) = [0, 1 / 10000, 1]"
  using buffer_aligned_most_recent [of init_analyzer
      "[DataReceived [1, 2] 0, TogglePause, DataReceived [3] 1, ClearData]"
      "[([1, 2], 0), ([3], 1)]"]
  by (simp add: init_analyzer_def lastn_def max_samples_def batch_times_def sample_rate_def
      upt_rec)

section \<open>Claims about the filter chain\<close>

lemma process_signal_dc:
  "fst (process_signal sp s data) =
     (let p0 = spec_dc_removed s data;
          p1 = (if highpass_enabled s \<and> length p0 > 100 then highpass_filter sp p0 else p0);
          p2 = (if lowpass_enabled s \<and> length p1 > 100 then lowpass_filter sp p1 else p1)
      in if notch_enabled s \<and> length p2 > 100 then notch_filter sp p2 else p2)"
  by (cases "data = []")
     (simp_all add: process_signal_def spec_dc_removed_def np_mean_def astype_float_def Let_def)

lemma sum_list_replicate_zero: "sum_list (replicate n (0 :: real)) = 0"
  by (induction n) simp_all

lemma length_spec_dc_removed: "length (spec_dc_removed s data) = length data"
  by (simp add: spec_dc_removed_def astype_float_def)

text \<open>
  C4. With the high-pass, low-pass and notch stages all disabled, \<open>process_signal\<close>
  returns its input converted to floats: the same length, every element the corresponding
  input amplitude, no mean subtracted; \<open>dc_offset\<close> is set to the nominal 2048.
\<close>

theorem process_signal_noop_identity:
  assumes "\<not> highpass_enabled s" and "\<not> lowpass_enabled s" and "\<not> notch_enabled s"
  shows "fst (process_signal sp s data) = astype_float data \<and>
         length (fst (process_signal sp s data)) = length data \<and>
         (\<forall>i < length data. fst (process_signal sp s data) ! i = real (unat (data ! i))) \<and>
         dc_offset (snd (process_signal sp s data)) = Some 2048"
  using assms by (simp add: process_signal_def astype_float_def Let_def)

theorem process_signal_noop_identity_witness:
  "\<not> highpass_enabled (init_analyzer\<lparr> highpass_enabled := False, notch_enabled := False \<rparr>) \<and>
   \<not> lowpass_enabled (init_analyzer\<lparr> highpass_enabled := False, notch_enabled := False \<rparr>) \<and>
   \<not> notch_enabled (init_analyzer\<lparr> highpass_enabled := False, notch_enabled := False \<rparr>) \<and>
   fst (process_signal sample_scipy
          (init_analyzer\<lparr> highpass_enabled := False, notch_enabled := False \<rparr>)
          [2040, 2060, 2047]) = [2040, 2060, 2047]"
  using process_signal_noop_identity [of
      "init_analyzer\<lparr> highpass_enabled := False, notch_enabled := False \<rparr>"
      sample_scipy "[2040, 2060, 2047]"]
  by (simp add: init_analyzer_def astype_float_def)

text \<open>
  C5, as stated, fails at exactly 100 samples: the guard of every stage is
  \<open>len(processed) > 100\<close>. With the high-pass stage enabled (the initial configuration)
  and 100 samples of value 0, the output is the mean-centred input, not the output of the
  high-pass filter.
\<close>

theorem stage_guard_counterexample:
  "highpass_enabled init_analyzer \<and>
   length (replicate 100 (0 :: 16 word)) = 100 \<and>
   fst (process_signal sample_scipy init_analyzer (replicate 100 0)) = replicate 100 0 \<and>
   highpass_filter sample_scipy (replicate 100 0) = replicate 100 1"
  by (simp add: process_signal_dc spec_dc_removed_def astype_float_def mean_def
      init_analyzer_def sample_scipy_def Let_def sum_list_replicate_zero)

text \<open>
  C5, amended. A stage runs exactly when it is enabled and more than 100 samples are
  present. For an input of at most 100 samples no stage is applied: the output is the
  (mean-centred) input. For an input of more than 100 samples, and library filters that
  keep the length of their input, the output is the enabled stages applied in the order
  high-pass, low-pass, notch to the mean-centred input.
\<close>

theorem process_signal_stage_guard:
  assumes "length_preserving (highpass_filter sp)"
    and "length_preserving (lowpass_filter sp)"
    and "length_preserving (notch_filter sp)"
  shows "(length data \<le> 100 \<longrightarrow>
            fst (process_signal sp s data) = spec_dc_removed s data) \<and>
         (length data > 100 \<longrightarrow>
            fst (process_signal sp s data) =
              (if notch_enabled s then notch_filter sp else id)
                ((if lowpass_enabled s then lowpass_filter sp else id)
                  ((if highpass_enabled s then highpass_filter sp else id)
                    (spec_dc_removed s data))))"
  using assms
  by (simp add: process_signal_dc length_spec_dc_removed length_preserving_def Let_def)

theorem process_signal_stage_guard_witness:
  "length_preserving (highpass_filter sample_scipy) \<and>
   length_preserving (lowpass_filter sample_scipy) \<and>
   length_preserving (notch_filter sample_scipy) \<and>
   length (replicate 100 (0 :: 16 word)) \<le> 100 \<and>
   fst (process_signal sample_scipy init_analyzer (replicate 100 0)) = replicate 100 0 \<and>
   length (replicate 101 (0 :: 16 word)) > 100 \<and>
   fst (process_signal sample_scipy init_analyzer (replicate 101 0)) = replicate 101 101"
  using process_signal_stage_guard [of sample_scipy "replicate 100 0" init_analyzer]
    process_signal_stage_guard [of sample_scipy "replicate 101 0" init_analyzer]
  by (simp add: length_preserving_def sample_scipy_def init_analyzer_def spec_dc_removed_def
      astype_float_def mean_def sum_list_replicate_zero)

section \<open>Claims about region extraction\<close>

lemma index_mask_map:
  "map fst (filter snd (zip (map f xs) ms)) = map f (map fst (filter snd (zip xs ms)))"
  by (induction xs arbitrary: ms) (case_tac ms; simp)+

lemma mask_select_nth:
  "length xs = length ms \<Longrightarrow>
   map fst (filter snd (zip xs ms)) = map ((!) xs) (filter (\<lambda>i. ms ! i) [0..<length xs])"
proof (induction xs ms rule: list_induct2)
  case Nil
  then show ?case by simp
next
  case (Cons x xs m ms)
  have upt: "[0..<Suc (length xs)] = 0 # map Suc [0..<length xs]"
    by (simp add: upt_conv_Cons map_Suc_upt del: upt_Suc)
  show ?case
    unfolding length_Cons upt
    using Cons.IH by (simp add: filter_map o_def)
qed

lemma np_index_mask_region:
  assumes "length xs = length ts"
  shows "np_index_mask xs (region_mask ts (a, b)) =
         Inr (map ((!) xs) (filter (\<lambda>i. a \<le> ts ! i \<and> ts ! i \<le> b) [0..<length xs]))"
proof -
  have "filter (\<lambda>i. region_mask ts (a, b) ! i) [0..<length xs] =
        filter (\<lambda>i. a \<le> ts ! i \<and> ts ! i \<le> b) [0..<length xs]"
    using assms by (intro filter_cong) (auto simp: region_mask_def)
  moreover have "length xs = length (region_mask ts (a, b))"
    using assms by (simp add: region_mask_def)
  ultimately show ?thesis
    by (simp add: np_index_mask_def mask_select_nth)
qed

lemma process_signal_frame:
  "snd (process_signal sp s data) =
   s\<lparr> dc_offset := dc_offset (snd (process_signal sp s data)) \<rparr>"
  by (simp add: process_signal_def Let_def)

lemma filter_then_extract_frame:
  "snd (filter_then_extract sp s data tms r) = snd (process_signal sp s data)"
  by (simp add: filter_then_extract_def Let_def split: prod.splits sum.splits)

lemma filter_then_extract_keeps:
  assumes "filter_then_extract sp s data tms r = (res, s1)"
  shows "selected_region s1 = selected_region s \<and> region_start s1 = region_start s \<and>
         detected_spikes s1 = detected_spikes s"
proof -
  have "s1 = snd (process_signal sp s data)"
    using assms filter_then_extract_frame [of sp s data tms r] by simp
  then have "s1 = s\<lparr> dc_offset := dc_offset s1 \<rparr>"
    using process_signal_frame [of sp s data] by simp
  then have "selected_region s1 = selected_region (s\<lparr> dc_offset := dc_offset s1 \<rparr>)"
    and "region_start s1 = region_start (s\<lparr> dc_offset := dc_offset s1 \<rparr>)"
    and "detected_spikes s1 = detected_spikes (s\<lparr> dc_offset := dc_offset s1 \<rparr>)"
    by simp_all
  then show ?thesis by simp
qed

lemma update_region_measurements_keeps:
  "selected_region (snd (update_region_measurements sp s)) = selected_region s \<and>
   region_start (snd (update_region_measurements sp s)) = region_start s"
  by (auto simp: update_region_measurements_def
      split: option.splits prod.splits region_result.splits
      dest: filter_then_extract_keeps)

lemma first_click:
  assumes "region_selection_mode s" and "region_start s = None"
    and "snapshot s = Some (data, tms)" and "tms \<noteq> []"
  shows "on_mouse_clicked sp s True c = (None, s\<lparr> region_start := Some c \<rparr>)"
  using assms by (simp add: on_mouse_clicked_def)

lemma second_click:
  assumes "region_selection_mode s" and "region_start s = Some c1"
    and "snapshot s = Some (data, tms)" and "tms \<noteq> []"
  shows "selected_region (snd (on_mouse_clicked sp s True c2)) = Some (min c1 c2, max c1 c2)"
  using assms by (simp add: on_mouse_clicked_def Let_def update_region_measurements_keeps)

lemma two_clicks_region:
  assumes "region_selection_mode s" and "region_start s = None"
    and "snapshot s = Some (data, tms)" and "tms \<noteq> []"
  shows "selected_region (two_clicks sp s c1 c2) = Some (min c1 c2, max c1 c2)"
proof -
  let ?s1 = "s\<lparr> region_start := Some c1 \<rparr>"
  have "snapshot ?s1 = snapshot s"
    by (auto simp: snapshot_def)
  with assms(3) have "snapshot ?s1 = Some (data, tms)"
    by simp
  then have "selected_region (snd (on_mouse_clicked sp ?s1 True c2)) =
             Some (min c1 c2, max c1 c2)"
    using assms(1,4) by (intro second_click) simp_all
  then show ?thesis
    by (simp add: two_clicks_def first_click [OF assms])
qed

lemma filter_then_extract_noop_eq:
  assumes "\<not> highpass_enabled s" and "\<not> lowpass_enabled s" and "\<not> notch_enabled s"
  shows "fst (filter_then_extract sp s data tms r) = spec_extract_then_filter sp s data tms r"
  using assms
  by (simp add: filter_then_extract_def spec_extract_then_filter_def process_signal_def
      np_index_mask_def astype_float_def index_mask_map Let_def)

lemma filter_then_extract_region:
  assumes ps: "process_signal sp s data = (pd, s1)"
    and some: "np_any (region_mask tms r)"
    and len: "length pd = length tms"
  shows "filter_then_extract sp s data tms r =
         (RegionData
            (map ((!) tms) (filter (\<lambda>i. fst r \<le> tms ! i \<and> tms ! i \<le> snd r) [0..<length tms]))
            (map ((!) pd) (filter (\<lambda>i. fst r \<le> tms ! i \<and> tms ! i \<le> snd r) [0..<length tms])),
          s1)"
proof -
  have r: "region_mask tms r = region_mask tms (fst r, snd r)" by simp
  have m1: "np_index_mask pd (region_mask tms r) =
      Inr (map ((!) pd) (filter (\<lambda>i. fst r \<le> tms ! i \<and> tms ! i \<le> snd r) [0..<length tms]))"
    unfolding r using np_index_mask_region [OF len, of "fst r" "snd r"] len by simp
  have "np_index_mask tms (region_mask tms r) =
      Inr (map ((!) tms) (filter (\<lambda>i. fst r \<le> tms ! i \<and> tms ! i \<le> snd r) [0..<length tms]))"
    unfolding r by (rule np_index_mask_region) simp
  then have m2: "map fst (filter snd (zip tms (region_mask tms r))) =
      map ((!) tms) (filter (\<lambda>i. fst r \<le> tms ! i \<and> tms ! i \<le> snd r) [0..<length tms])"
    by (simp add: np_index_mask_def region_mask_def)
  show ?thesis
    unfolding filter_then_extract_def ps Let_def
    by (simp only: prod.case some m1 m2 not_True_eq_False if_False sum.case)
qed

lemma process_signal_two_samples: "process_signal sample_scipy init_analyzer [0, 10] = ([-5, 5], init_analyzer\<lparr> dc_offset := Some 5 \<rparr>)"
  by (simp add: process_signal_def astype_float_def Let_def np_mean_def mean_def init_analyzer_def sample_scipy_def)

text \<open>
  C2, as stated, fails: the code filters the whole snapshot and masks afterwards, so the
  mean it subtracts is that of the snapshot, not of the region. In the initial
  configuration (high-pass and notch enabled), for the snapshot of amplitudes \<open>[0, 10]\<close>
  at times \<open>[0, 1]\<close> and the region \<open>(0, 0)\<close>, the code's region sample is \<open>-5\<close>
  while extract-then-filter gives \<open>0\<close>.
\<close>

theorem filter_order_counterexample:
  "fst (filter_then_extract sample_scipy init_analyzer [0, 10] [0, 1] (0, 0)) =
     RegionData [0] [-5] \<and>
   spec_extract_then_filter sample_scipy init_analyzer [0, 10] [0, 1] (0, 0) =
     RegionData [0] [0]"
  by (simp add: filter_then_extract_def spec_extract_then_filter_def process_signal_def
      np_index_mask_def astype_float_def Let_def region_mask_def np_any_def np_mean_def
      mean_def init_analyzer_def sample_scipy_def)

text \<open>
  C2, amended. In the on-demand pipeline filtering precedes region extraction: the region
  samples are the filter chain's output on the whole snapshot, masked to the inclusive
  time region. When the high-pass, low-pass and notch stages are all disabled this is the
  same region samples as slicing first and filtering the
  slice.
\<close>

theorem filter_then_extract_order:
  "snd (filter_then_extract sp s data tms r) = snd (process_signal sp s data) \<and>
   (np_any (region_mask tms r) \<and> length (fst (process_signal sp s data)) = length tms \<longrightarrow>
      fst (filter_then_extract sp s data tms r) =
        RegionData
          (map ((!) tms) (filter (\<lambda>i. fst r \<le> tms ! i \<and> tms ! i \<le> snd r) [0..<length tms]))
          (map ((!) (fst (process_signal sp s data)))
             (filter (\<lambda>i. fst r \<le> tms ! i \<and> tms ! i \<le> snd r) [0..<length tms]))) \<and>
   (\<not> highpass_enabled s \<and> \<not> lowpass_enabled s \<and> \<not> notch_enabled s \<longrightarrow>
      fst (filter_then_extract sp s data tms r) = spec_extract_then_filter sp s data tms r)"
proof (intro conjI impI)
  show "snd (filter_then_extract sp s data tms r) = snd (process_signal sp s data)"
    by (rule filter_then_extract_frame)
next
  assume "\<not> highpass_enabled s \<and> \<not> lowpass_enabled s \<and> \<not> notch_enabled s"
  then show "fst (filter_then_extract sp s data tms r) =
             spec_extract_then_filter sp s data tms r"
    by (simp add: filter_then_extract_noop_eq)
next
  assume a: "np_any (region_mask tms r) \<and> length (fst (process_signal sp s data)) = length tms"
  obtain pd s1 where ps: "process_signal sp s data = (pd, s1)"
    by (cases "process_signal sp s data")
  with a have "np_any (region_mask tms r)" and "length pd = length tms" by simp_all
  with ps have "filter_then_extract sp s data tms r =
         (RegionData
            (map ((!) tms) (filter (\<lambda>i. fst r \<le> tms ! i \<and> tms ! i \<le> snd r) [0..<length tms]))
            (map ((!) pd) (filter (\<lambda>i. fst r \<le> tms ! i \<and> tms ! i \<le> snd r) [0..<length tms])),
          s1)"
    by (rule filter_then_extract_region)
  then show "fst (filter_then_extract sp s data tms r) =
        RegionData
          (map ((!) tms) (filter (\<lambda>i. fst r \<le> tms ! i \<and> tms ! i \<le> snd r) [0..<length tms]))
          (map ((!) (fst (process_signal sp s data)))
             (filter (\<lambda>i. fst r \<le> tms ! i \<and> tms ! i \<le> snd r) [0..<length tms]))"
    by (simp add: ps)
qed

theorem filter_then_extract_order_witness:
  "np_any (region_mask [0, 1] (1, 1)) \<and>
   length (fst (process_signal sample_scipy init_analyzer [0, 10])) = length [0, 1 :: real] \<and>
   fst (filter_then_extract sample_scipy init_analyzer [0, 10] [0, 1] (1, 1)) =
     RegionData [1] [5] \<and>
   \<not> highpass_enabled (init_analyzer\<lparr> highpass_enabled := False, notch_enabled := False \<rparr>) \<and>
   \<not> lowpass_enabled (init_analyzer\<lparr> highpass_enabled := False, notch_enabled := False \<rparr>) \<and>
   \<not> notch_enabled (init_analyzer\<lparr> highpass_enabled := False, notch_enabled := False \<rparr>) \<and>
   fst (filter_then_extract sample_scipy
     (init_analyzer\<lparr> highpass_enabled := False, notch_enabled := False \<rparr>) [0, 10] [0, 1] (1, 1)) =
   spec_extract_then_filter sample_scipy
     (init_analyzer\<lparr> highpass_enabled := False, notch_enabled := False \<rparr>) [0, 10] [0, 1] (1, 1)"
proof -
  have h1: "np_any (region_mask [0, 1] (1, 1)) \<and>
      length (fst (process_signal sample_scipy init_analyzer [0, 10])) = length [0, 1 :: real]"
    by (simp add: process_signal_two_samples region_mask_def np_any_def)
  have h2: "\<not> highpass_enabled (init_analyzer\<lparr> highpass_enabled := False, notch_enabled := False \<rparr>) \<and>
      \<not> lowpass_enabled (init_analyzer\<lparr> highpass_enabled := False, notch_enabled := False \<rparr>) \<and>
      \<not> notch_enabled (init_analyzer\<lparr> highpass_enabled := False, notch_enabled := False \<rparr>)"
    by (simp add: init_analyzer_def)
  note t1 = filter_then_extract_order [of sample_scipy init_analyzer "[0, 10]" "[0, 1]" "(1, 1)"]
  note t2 = filter_then_extract_order [of sample_scipy
      "init_analyzer\<lparr> highpass_enabled := False, notch_enabled := False \<rparr>"
      "[0, 10]" "[0, 1]" "(1, 1)"]
  from t1 [THEN conjunct2, THEN conjunct1, THEN mp, OF h1]
  have c1: "fst (filter_then_extract sample_scipy init_analyzer [0, 10] [0, 1] (1, 1)) =
     RegionData [1] [5]"
    by (simp add: process_signal_two_samples upt_rec)
  from t2 [THEN conjunct2, THEN conjunct2, THEN mp, OF h2]
  have c2: "fst (filter_then_extract sample_scipy
     (init_analyzer\<lparr> highpass_enabled := False, notch_enabled := False \<rparr>) [0, 10] [0, 1] (1, 1)) =
   spec_extract_then_filter sample_scipy
     (init_analyzer\<lparr> highpass_enabled := False, notch_enabled := False \<rparr>) [0, 10] [0, 1] (1, 1)" .
  from h1 h2 c1 c2 show ?thesis by blast
qed

lemma recorded_analyzer_reached:
  "recorded_analyzer =
     on_data_received (init_analyzer\<lparr> region_selection_mode := True \<rparr>) [0, 30, 0] 0"
  by (simp add: recorded_analyzer_def on_data_received_def init_analyzer_def
      deque_extend_lastn lastn_def batch_times_def sample_rate_def max_samples_def)

lemma snapshot_recorded:
  "snapshot recorded_analyzer = Some ([0, 30, 0], [0, 1 / 10000, 2 / 10000])"
  by (simp add: snapshot_def recorded_analyzer_def init_analyzer_def)

text \<open>
  C9. Region extraction keeps exactly the samples whose time lies in the closed interval
  from start to end, in input order. Two left clicks commit the region
  \<open>(min c1 c2, max c1 c2)\<close>: its start is at most its end and it is the same for either
  click order, so extraction returns the same inclusive subset.
\<close>

theorem region_inclusive_and_normalized:
  assumes "region_selection_mode s" and "region_start s = None"
    and "snapshot s = Some (data, tms)" and "tms \<noteq> []"
    and "length xs = length ts"
  shows "np_index_mask xs (region_mask ts (a, b)) =
           Inr (map ((!) xs) (filter (\<lambda>i. a \<le> ts ! i \<and> ts ! i \<le> b) [0..<length xs])) \<and>
         selected_region (two_clicks sp s c1 c2) = Some (min c1 c2, max c1 c2) \<and>
         selected_region (two_clicks sp s c2 c1) = selected_region (two_clicks sp s c1 c2) \<and>
         min c1 c2 \<le> max c1 c2 \<and>
         np_index_mask xs (region_mask ts (min c1 c2, max c1 c2)) =
           Inr (map ((!) xs)
                 (filter (\<lambda>i. min c1 c2 \<le> ts ! i \<and> ts ! i \<le> max c1 c2) [0..<length xs]))"
proof -
  have "selected_region (two_clicks sp s c1 c2) = Some (min c1 c2, max c1 c2)"
    and "selected_region (two_clicks sp s c2 c1) = Some (min c2 c1, max c2 c1)"
    using assms(1-4) by (rule two_clicks_region)+
  moreover have "min c2 c1 = min c1 c2" and "max c2 c1 = max c1 c2"
    by (simp_all add: min.commute max.commute)
  ultimately show ?thesis
    using np_index_mask_region [OF assms(5)] by simp
qed

theorem region_inclusive_and_normalized_witness:
  "region_selection_mode recorded_analyzer \<and> region_start recorded_analyzer = None \<and>
   snapshot recorded_analyzer = Some ([0, 30, 0], [0, 1 / 10000, 2 / 10000]) \<and>
   [0, 1 / 10000, 2 / 10000 :: real] \<noteq> [] \<and>
   length [10, 20, 30 :: real] = length [0, 1, 2 :: real] \<and>
   np_index_mask [10, 20, 30 :: real] (region_mask [0, 1, 2] (1, 2)) = Inr [20, 30] \<and>
   selected_region (two_clicks sample_scipy recorded_analyzer 2 (1 / 2)) = Some (1 / 2, 2) \<and>
   selected_region (two_clicks sample_scipy recorded_analyzer (1 / 2) 2) = Some (1 / 2, 2)"
proof -
  have h1: "region_selection_mode recorded_analyzer"
    and h2: "region_start recorded_analyzer = None"
    by (simp_all add: recorded_analyzer_def init_analyzer_def)
  have h4: "[0, 1 / 10000, 2 / 10000 :: real] \<noteq> []" by simp
  have h5: "length [10, 20, 30 :: real] = length [0, 1, 2 :: real]" by simp
  note t = region_inclusive_and_normalized [OF h1 h2 snapshot_recorded h4 h5,
      of 1 2 sample_scipy 2 "1 / 2"]
  from t have "np_index_mask [10, 20, 30 :: real] (region_mask [0, 1, 2] (1, 2)) = Inr [20, 30]"
    by (simp add: upt_rec)
  moreover from t have
    "selected_region (two_clicks sample_scipy recorded_analyzer 2 (1 / 2)) = Some (1 / 2, 2)"
    "selected_region (two_clicks sample_scipy recorded_analyzer (1 / 2) 2) = Some (1 / 2, 2)"
    by simp_all
  ultimately show ?thesis
    using h1 h2 snapshot_recorded by simp
qed

section \<open>Claims about the frequency estimate\<close>

lemma np_diff_length: "length (np_diff xs) = length xs - 1"
  by (simp add: np_diff_def)

lemma np_diff_nth: "Suc i < length xs \<Longrightarrow> np_diff xs ! i = xs ! Suc i - xs ! i"
  by (simp add: np_diff_def nth_tl)

lemma np_diff_as_map:
  "np_diff xs = map (\<lambda>k. xs ! Suc k - xs ! k) [0..<length xs - 1]"
  by (rule nth_equalityI) (simp_all add: np_diff_length np_diff_nth)

lemma zero_crossings_spec: "zero_crossings region_data = spec_crossings region_data"
proof -
  have "filter (\<lambda>i. np_diff (map sgn region_data) ! i \<noteq> 0) [0..<length region_data - 1] =
        filter (\<lambda>i. sgn (region_data ! i) \<noteq> sgn (region_data ! Suc i))
          [0..<length region_data - 1]"
    by (rule filter_cong) (auto simp: np_diff_nth)
  then show ?thesis
    by (simp add: zero_crossings_def spec_crossings_def np_where_def np_diff_length)
qed

lemma avg_frequency_spec:
  "avg_frequency region_times region_data = spec_avg_frequency region_times region_data"
proof (cases "length (spec_crossings region_data) < 2")
  case True
  then show ?thesis
    by (simp add: avg_frequency_def spec_avg_frequency_def zero_crossings_spec Let_def)
next
  case False
  let ?cs = "spec_crossings region_data"
  let ?deltas = "map (\<lambda>k. region_times ! (?cs ! Suc k) - region_times ! (?cs ! k))
                   [0..<length ?cs - 1]"
  have deltas: "np_diff (map (\<lambda>i. region_times ! i) ?cs) = ?deltas"
    by (simp add: np_diff_as_map)
  have "?deltas \<noteq> []" using False by simp
  then have "np_mean ?deltas = Some (sum_list ?deltas / real (length ?deltas))"
    by (simp only: np_mean_def mean_def if_False)
  with False show ?thesis
    by (simp add: avg_frequency_def spec_avg_frequency_def zero_crossings_spec deltas Let_def
        not_le mult.commute)
qed

lemma crossings_example: "spec_crossings [0, 5, -5, 5, -5, 0] = [0, 1, 2, 3, 4]"
  by (simp add: spec_crossings_def upt_rec)

text \<open>
  C6. The frequency estimate of \<open>update_region_measurements\<close> is the one the
  specification describes: the crossings are the indices where the sign of the amplitude
  differs from that of the next sample; with fewer than 2 of them the frequency is
  unavailable; otherwise the period is twice the mean of the time deltas between
  consecutive crossing timestamps, and the frequency is its reciprocal, unavailable when
  the period is not positive.
\<close>

theorem avg_frequency_follows_spec:
  "zero_crossings region_data = spec_crossings region_data \<and>
   avg_frequency region_times region_data = spec_avg_frequency region_times region_data"
  by (simp add: zero_crossings_spec avg_frequency_spec)

text \<open>
  C7, as stated, fails on the count: \<open>np.sign(0)\<close> is 0, so leaving the initial zero and
  reaching the final zero are sign changes too, and the series has 5 crossings, not 4.
\<close>

theorem zero_crossings_count_counterexample:
  "length (zero_crossings [0, 5, -5, 5, -5, 0]) = 5 \<and>
   length (zero_crossings [0, 5, -5, 5, -5, 0]) \<noteq> 4"
  by (simp add: zero_crossings_spec crossings_example)

text \<open>
  C7, amended. For the amplitudes \<open>[0, 5, -5, 5, -5, 0]\<close> at times \<open>[0, 1, 2, 3, 4, 5]\<close>
  the zero-crossing computation yields exactly 5 crossings, at the indices 0 to 4, and the
  average frequency is defined and strictly positive: it is 1/2.
\<close>

theorem zero_crossings_example:
  "zero_crossings [0, 5, -5, 5, -5, 0] = [0, 1, 2, 3, 4] \<and>
   avg_frequency [0, 1, 2, 3, 4, 5] [0, 5, -5, 5, -5, 0] = Some (1 / 2) \<and>
   (0 :: real) < 1 / 2"
  by (simp add: zero_crossings_spec avg_frequency_spec spec_avg_frequency_def
      crossings_example upt_rec Let_def)

section \<open>Claims about spike detection\<close>

lemma detect_spikes_no_peaks:
  assumes "selected_region s = Some r" and "snapshot s = Some (data, tms)"
    and "filter_then_extract sp s data tms r = (RegionData rt rd, s1)"
    and "1 \<le> py_int (min_distance_spin s1 * real sample_rate)"
    and "find_peaks sp (map abs rd) (threshold_spin s1)
           (py_int (min_distance_spin s1 * real sample_rate)) = []"
  shows "detect_spikes sp s = (Information ''No Spikes'', s1)"
  unfolding detect_spikes_def using assms by (simp add: Let_def)

lemma detect_spikes_peaks:
  assumes "selected_region s = Some r" and "snapshot s = Some (data, tms)"
    and "filter_then_extract sp s data tms r = (RegionData rt rd, s1)"
    and "1 \<le> py_int (min_distance_spin s1 * real sample_rate)"
    and "find_peaks sp (map abs rd) (threshold_spin s1)
           (py_int (min_distance_spin s1 * real sample_rate)) = peaks"
    and "peaks \<noteq> []"
    and "analyze_peaks rt rd (py_int (min_distance_spin s1 * real sample_rate)) peaks [] =
           (spikes, None)"
  shows "detect_spikes sp s = (SpikeResults spikes, s1\<lparr> detected_spikes := spikes \<rparr>)"
  unfolding detect_spikes_def using assms by (simp add: Let_def)



lemma process_signal_recording:
  assumes "highpass_enabled s"
  shows "process_signal sample_scipy s [0, 30, 0] = ([-10, 20, -10], s\<lparr> dc_offset := Some 10 \<rparr>)"
  using assms
  by (simp add: process_signal_def astype_float_def np_mean_def mean_def sample_scipy_def Let_def)

lemma region_of_recording:
  assumes "highpass_enabled s"
  shows "filter_then_extract sample_scipy s [0, 30, 0] [0, 1 / 10000, 2 / 10000] (0, 1) =
         (RegionData [0, 1 / 10000, 2 / 10000] [-10, 20, -10], s\<lparr> dc_offset := Some 10 \<rparr>)"
proof -
  have "np_any (region_mask [0, 1 / 10000, 2 / 10000] (0, 1))"
    by (simp add: np_any_def region_mask_def)
  moreover have "length [-10, 20, -10 :: real] = length [0, 1 / 10000, 2 / 10000 :: real]"
    by simp
  ultimately have "filter_then_extract sample_scipy s [0, 30, 0] [0, 1 / 10000, 2 / 10000] (0, 1) =
      (RegionData
         (map ((!) [0, 1 / 10000, 2 / 10000])
            (filter (\<lambda>i. fst (0 :: real, 1 :: real) \<le> [0, 1 / 10000, 2 / 10000] ! i \<and>
                         [0, 1 / 10000, 2 / 10000] ! i \<le> snd (0 :: real, 1 :: real))
               [0..<length [0, 1 / 10000, 2 / 10000 :: real]]))
         (map ((!) [-10, 20, -10])
            (filter (\<lambda>i. fst (0 :: real, 1 :: real) \<le> [0, 1 / 10000, 2 / 10000] ! i \<and>
                         [0, 1 / 10000, 2 / 10000] ! i \<le> snd (0 :: real, 1 :: real))
               [0..<length [0, 1 / 10000, 2 / 10000 :: real]])),
       s\<lparr> dc_offset := Some 10 \<rparr>)"
    by (rule filter_then_extract_region [OF process_signal_recording [OF assms]])
  then show ?thesis by (simp add: upt_rec)
qed

lemma py_int_default_distance: "py_int (1 / 20 * real sample_rate) = 500"
  by (simp add: py_int_def sample_rate_def)

lemma local_maxima_recording: "local_maxima [10, 20, 10] = [1]"
proof -
  have "[1..<length [10, 20, 10 :: real] - 1] = [Suc 0]"
    by (simp add: numeral_2_eq_2)
  then show ?thesis
    unfolding local_maxima_def by simp
qed

lemma peaks_recording_15: "find_peaks sample_scipy [10, 20, 10] 15 500 = [1]"
  by (simp add: sample_scipy_def local_maxima_recording)

lemma peaks_recording_100: "find_peaks sample_scipy [10, 20, 10] 100 500 = []"
  by (simp add: sample_scipy_def local_maxima_recording)

lemma peak_records_recording:
  "peak_records [0, 1 / 10000, 2 / 10000] [-10, 20, -10] 500 1 =
     [\<lparr> spike_time = 1 / 10000, spike_max = 20, spike_min = -10, spike_amplitude = 30 \<rparr>]"
  by (simp add: peak_records_def Let_def)

lemma analyze_peaks_recording:
  "analyze_peaks [0, 1 / 10000, 2 / 10000] [-10, 20, -10] 500 [1] [] =
     ([\<lparr> spike_time = 1 / 10000, spike_max = 20, spike_min = -10, spike_amplitude = 30 \<rparr>],
      None)"
  by (simp add: peak_records_def Let_def)

lemma detect_spikes_recording_15:
  assumes "highpass_enabled s" and "selected_region s = Some (0, 1)"
    and "snapshot s = Some ([0, 30, 0], [0, 1 / 10000, 2 / 10000])"
    and "min_distance_spin s = 1 / 20" and "threshold_spin s = 15"
  shows "detect_spikes sample_scipy s =
     (SpikeResults
        [\<lparr> spike_time = 1 / 10000, spike_max = 20, spike_min = -10, spike_amplitude = 30 \<rparr>],
      s\<lparr> dc_offset := Some 10,
         detected_spikes :=
           [\<lparr> spike_time = 1 / 10000, spike_max = 20, spike_min = -10,
               spike_amplitude = 30 \<rparr>] \<rparr>)"
proof (rule detect_spikes_peaks [OF assms(2,3) region_of_recording [OF assms(1)]])
  have dist: "min_distance_spin (s\<lparr> dc_offset := Some 10 \<rparr>) = 1 / 20"
    and thr: "threshold_spin (s\<lparr> dc_offset := Some 10 \<rparr>) = 15"
    using assms(4,5) by simp_all
  show "1 \<le> py_int (min_distance_spin (s\<lparr> dc_offset := Some 10 \<rparr>) * real sample_rate)"
    unfolding dist py_int_default_distance by simp
  show "find_peaks sample_scipy (map abs [-10, 20, -10])
          (threshold_spin (s\<lparr> dc_offset := Some 10 \<rparr>))
          (py_int (min_distance_spin (s\<lparr> dc_offset := Some 10 \<rparr>) * real sample_rate)) = [1]"
    unfolding dist thr py_int_default_distance by (simp add: peaks_recording_15)
  show "[1 :: nat] \<noteq> []" by simp
  show "analyze_peaks [0, 1 / 10000, 2 / 10000] [-10, 20, -10]
          (py_int (min_distance_spin (s\<lparr> dc_offset := Some 10 \<rparr>) * real sample_rate)) [1] [] =
        ([\<lparr> spike_time = 1 / 10000, spike_max = 20, spike_min = -10,
             spike_amplitude = 30 \<rparr>], None)"
    unfolding dist py_int_default_distance by (rule analyze_peaks_recording)
qed

lemma detect_spikes_recording_100:
  assumes "highpass_enabled s" and "selected_region s = Some (0, 1)"
    and "snapshot s = Some ([0, 30, 0], [0, 1 / 10000, 2 / 10000])"
    and "min_distance_spin s = 1 / 20" and "threshold_spin s = 100"
  shows "detect_spikes sample_scipy s = (Information ''No Spikes'', s\<lparr> dc_offset := Some 10 \<rparr>)"
proof (rule detect_spikes_no_peaks [OF assms(2,3) region_of_recording [OF assms(1)]])
  have dist: "min_distance_spin (s\<lparr> dc_offset := Some 10 \<rparr>) = 1 / 20"
    and thr: "threshold_spin (s\<lparr> dc_offset := Some 10 \<rparr>) = 100"
    using assms(4,5) by simp_all
  show "1 \<le> py_int (min_distance_spin (s\<lparr> dc_offset := Some 10 \<rparr>) * real sample_rate)"
    unfolding dist py_int_default_distance by simp
  show "find_peaks sample_scipy (map abs [-10, 20, -10])
          (threshold_spin (s\<lparr> dc_offset := Some 10 \<rparr>))
          (py_int (min_distance_spin (s\<lparr> dc_offset := Some 10 \<rparr>) * real sample_rate)) = []"
    unfolding dist thr py_int_default_distance by (simp add: peaks_recording_100)
qed

lemma no_peak_reaches_height:
  assumes "\<And>i. i \<in> set (find_peaks sp x h d) \<Longrightarrow> i < length x \<and> h \<le> x ! i"
    and "\<And>v. v \<in> set x \<Longrightarrow> v < h"
  shows "find_peaks sp x h d = []"
proof (rule ccontr)
  assume "find_peaks sp x h d \<noteq> []"
  then obtain i where i: "i \<in> set (find_peaks sp x h d)"
    by (cases "find_peaks sp x h d") auto
  from assms(1) [OF i] have "i < length x" and "h \<le> x ! i" by simp_all
  moreover from \<open>i < length x\<close> have "x ! i < h" by (intro assms(2)) simp
  ultimately show False by simp
qed

lemma detect_spikes_threshold_above_all:
  assumes "selected_region s = Some r" and "snapshot s = Some (data, tms)"
    and "filter_then_extract sp s data tms r = (RegionData rt rd, s1)"
    and "1 \<le> py_int (min_distance_spin s * real sample_rate)"
    and "\<And>x h d i. i \<in> set (find_peaks sp x h d) \<Longrightarrow> i < length x \<and> h \<le> x ! i"
    and "\<And>v. v \<in> set rd \<Longrightarrow> \<bar>v\<bar> < threshold_spin s"
  shows "fst (detect_spikes sp s) = Information ''No Spikes'' \<and>
         detected_spikes (snd (detect_spikes sp s)) = detected_spikes s"
proof -
  have "s1 = snd (process_signal sp s data)"
    using assms(3) filter_then_extract_frame [of sp s data tms r] by simp
  then have s1: "s1 = s\<lparr> dc_offset := dc_offset s1 \<rparr>"
    using process_signal_frame [of sp s data] by simp
  have thr: "threshold_spin s1 = threshold_spin s" and dist: "min_distance_spin s1 = min_distance_spin s"
    by (subst s1, simp)+
  have "find_peaks sp (map abs rd) (threshold_spin s1)
          (py_int (min_distance_spin s1 * real sample_rate)) = []"
  proof (rule no_peak_reaches_height)
    fix i
    assume "i \<in> set (find_peaks sp (map abs rd) (threshold_spin s1)
                       (py_int (min_distance_spin s1 * real sample_rate)))"
    then show "i < length (map abs rd) \<and> threshold_spin s1 \<le> map abs rd ! i"
      by (rule assms(5))
  next
    fix v
    assume "v \<in> set (map abs rd)"
    then show "v < threshold_spin s1"
      using assms(6) by (auto simp: thr)
  qed
  with assms(1-4) have "detect_spikes sp s = (Information ''No Spikes'', s1)"
    by (intro detect_spikes_no_peaks) (simp_all add: dist)
  then show ?thesis
    using filter_then_extract_keeps [OF assms(3)] by simp
qed

lemma spiked_analyzer_fields:
  "highpass_enabled spiked_analyzer" "selected_region spiked_analyzer = Some (0, 1)"
  "snapshot spiked_analyzer = Some ([0, 30, 0], [0, 1 / 10000, 2 / 10000])"
  "min_distance_spin spiked_analyzer = 1 / 20" "threshold_spin spiked_analyzer = 15"
  by (simp_all add: spiked_analyzer_def recorded_analyzer_def init_analyzer_def snapshot_def)

text \<open>
  C8: the second half of the claim does not hold of the code. After a detection run that
  stored one record (threshold 15 on the region samples \<open>[-10, 20, -10]\<close>), a run with
  threshold 100, above every absolute value in the region, reports "No Spikes" as an
  information message, not an error, but returns before \<open>detected_spikes\<close> is reassigned:
  the record of the previous run is still stored.
\<close>

theorem stale_spikes_after_empty_detection:
  "fst (detect_spikes sample_scipy spiked_analyzer) =
     SpikeResults
       [\<lparr> spike_time = 1 / 10000, spike_max = 20, spike_min = -10, spike_amplitude = 30 \<rparr>] \<and>
   fst (detect_spikes sample_scipy
          ((snd (detect_spikes sample_scipy spiked_analyzer))\<lparr> threshold_spin := 100 \<rparr>)) =
     Information ''No Spikes'' \<and>
   detected_spikes (snd (detect_spikes sample_scipy
          ((snd (detect_spikes sample_scipy spiked_analyzer))\<lparr> threshold_spin := 100 \<rparr>))) =
     [\<lparr> spike_time = 1 / 10000, spike_max = 20, spike_min = -10, spike_amplitude = 30 \<rparr>]"
proof -
  let ?rec = "\<lparr> spike_time = 1 / 10000, spike_max = 20, spike_min = -10,
                 spike_amplitude = (30 :: real) \<rparr>"
  let ?s1 = "spiked_analyzer\<lparr> dc_offset := Some 10, detected_spikes := [?rec] \<rparr>"
  let ?s2 = "?s1\<lparr> threshold_spin := 100 \<rparr>"
  have r1: "detect_spikes sample_scipy spiked_analyzer = (SpikeResults [?rec], ?s1)"
    by (rule detect_spikes_recording_15) (rule spiked_analyzer_fields)+
  have "snapshot ?s2 = snapshot spiked_analyzer"
    by (auto simp: snapshot_def)
  then have snap: "snapshot ?s2 = Some ([0, 30, 0], [0, 1 / 10000, 2 / 10000])"
    by (simp only: spiked_analyzer_fields)
  have r2: "detect_spikes sample_scipy ?s2 =
            (Information ''No Spikes'', ?s2\<lparr> dc_offset := Some 10 \<rparr>)"
    by (rule detect_spikes_recording_100) (simp_all add: spiked_analyzer_fields snap)
  have s2: "(snd (detect_spikes sample_scipy spiked_analyzer))\<lparr> threshold_spin := 100 \<rparr> = ?s2"
    by (simp only: r1 snd_conv)
  have a: "fst (detect_spikes sample_scipy spiked_analyzer) = SpikeResults [?rec]"
    by (simp only: r1 fst_conv)
  have b: "fst (detect_spikes sample_scipy ?s2) = Information ''No Spikes''"
    by (simp only: r2 fst_conv)
  have c: "detected_spikes (snd (detect_spikes sample_scipy ?s2)) = [?rec]"
    unfolding r2 by simp
  show ?thesis
    unfolding s2 using a b c by (intro conjI)
qed

end
